theory Spec2Isabelle
  imports Main "HOL-Library.Word"
begin

section \<open>The client handle\<close>

text \<open>
  \<^verbatim>\<open>type MicroStellar struct { networkName string; fake bool }\<close>.
  The fields carry the prefix \<open>ms_\<close> because \<open>networkName\<close> is also the name of the
  parameter of \<open>New\<close>.
\<close>

record MicroStellar =
  ms_networkName :: string
  ms_fake :: bool

definition New :: "string \<Rightarrow> MicroStellar" where
  "New networkName =
     \<lparr>ms_networkName = networkName, ms_fake = (networkName = ''fake'')\<rparr>"

section \<open>Values handed to the operation builder\<close>

text \<open>
  The package \<open>github.com/stellar/go/build\<close> is an external library. The facade only
  constructs its values and passes them on, so each value is kept as the descriptor of
  the constructor call that made it, arguments in the order of the source.
  \<open>uint32\<close> is \<open>32 word\<close>, \<open>uint64\<close> is \<open>64 word\<close>.
\<close>

datatype payment_mutator =
    build_Destination string
  | build_NativeAmount string
  | build_CreditAmount string string string

datatype trust_mutator =
    build_Limit string

datatype transaction_mutator =
    build_MemoText string
  | build_MemoID "64 word"
  | build_CreateAccount "payment_mutator list"
  | build_Payment "payment_mutator list"
  | build_Trust string string "trust_mutator list"
  | build_RemoveTrust string string
  | build_MasterWeight "32 word"
  | build_AddSigner string "32 word"
  | build_RemoveSigner string
  | build_SetThresholds "32 word" "32 word" "32 word"

text \<open>
  \<open>sourceAccount(addressOrSeed)\<close> is a helper of the package whose body is not in
  \<open>microstellar.go\<close>. Its result is only ever passed to \<open>Tx.Build\<close>, so it is kept as
  the descriptor of the call.
\<close>

datatype source_account =
    sourceAccount string

section \<open>Data model of the package\<close>

text \<open>
  Modelled from the spec: the types \<open>Asset\<close>, \<open>MemoType\<close>, \<open>Payment\<close>, \<open>KeyPair\<close> and
  \<open>Account\<close> are declared in other files of the package. The field names of \<open>Payment\<close>
  and \<open>Asset\<close> are the ones \<open>microstellar.go\<close> reads (\<open>payment.sourceSeed\<close>,
  \<open>asset.Code\<close>, ...); the fields of \<open>Payment\<close> carry the prefix \<open>payment_\<close> because
  \<open>sourceSeed\<close>, \<open>amount\<close> and \<open>asset\<close> are parameter names of the facade too. The rest
  follows the data-model table of the spec: a memo type is one of none, text and id; an
  account snapshot holds address, sequence number, balances, signers and thresholds.
\<close>

record Asset =
  Code :: string
  Issuer :: string

datatype MemoType = MemoNone | MemoText | MemoID

record Payment =
  payment_sourceSeed :: string
  payment_targetAddress :: string
  payment_amount :: string
  payment_asset :: Asset
  payment_memoType :: MemoType
  payment_memoText :: string
  payment_memoID :: "64 word"
  payment_signerSeeds :: "string list"

record KeyPair =
  Seed :: string
  Address :: string

record Account =
  account_address :: string
  account_sequence :: nat
  account_balances :: "(Asset \<times> string) list"
  account_signers :: "(string \<times> 32 word) list"
  account_thresholds :: "32 word \<times> 32 word \<times> 32 word"

text \<open>
  Modelled from the spec: \<open>Asset.IsNative\<close> is a method defined outside
  \<open>microstellar.go\<close>. The spec's invariant for \<open>Asset\<close>: \<open>IsNative()\<close> holds exactly
  when code and issuer are both empty.
\<close>

definition IsNative :: "Asset \<Rightarrow> bool" where
  "IsNative a = (Code a = [] \<and> Issuer a = [])"

text \<open>
  Modelled from the spec: \<open>newAccount()\<close> is a helper defined outside
  \<open>microstellar.go\<close>. The spec: an account synthesized in fake mode has zero-value
  defaults.
\<close>

definition newAccount :: Account where
  "newAccount =
     \<lparr>account_address = [], account_sequence = 0, account_balances = [],
      account_signers = [], account_thresholds = (0, 0, 0)\<rparr>"

text \<open>
  Modelled from the spec: \<open>NewPayment(sourceSeed, targetAddress, amount)\<close> is the builder
  of \<open>Payment\<close>, defined outside \<open>microstellar.go\<close>. \<open>PayNative\<close>, its only caller here,
  is documented as making a native asset payment: the payment it starts from has the
  native asset, no memo and no explicit signer.
\<close>

definition NativeAsset :: Asset where
  "NativeAsset = \<lparr>Code = [], Issuer = []\<rparr>"

definition NewPayment :: "string \<Rightarrow> string \<Rightarrow> string \<Rightarrow> Payment" where
  "NewPayment sourceSeed targetAddress amount =
     \<lparr>payment_sourceSeed = sourceSeed, payment_targetAddress = targetAddress,
      payment_amount = amount, payment_asset = NativeAsset, payment_memoType = MemoNone,
      payment_memoText = [], payment_memoID = 0, payment_signerSeeds = []\<rparr>"

section \<open>The transaction pipeline as seen from the facade\<close>

text \<open>
  Errors are opaque \<open>error\<close> values in Go; \<open>nil\<close> is \<open>None\<close>. The kinds are the ones the
  spec lists, each with its message; \<open>StageError\<close> is the report of a call made out
  of order.
\<close>

datatype error =
    BuildError string
  | SignError string
  | SubmitError string
  | RejectionError string
  | NotFoundError string
  | StageError string

text \<open>
  \<open>Tx\<close>, its constructor \<open>NewTx\<close> and its methods, the Horizon client it exposes,
  \<open>newAccountFromHorizon\<close> and \<open>keypair.Random\<close> are all outside \<open>microstellar.go\<close>.
  The facade is therefore parametrised by them: \<open>'s\<close> is the state of a \<open>Tx\<close> object,
  \<open>'h\<close> the account record the Horizon client returns. The methods of \<open>Tx\<close> mutate the
  object; here each takes the state and returns the new one. The facade ignores what
  \<open>Build\<close>, \<open>Sign\<close> and \<open>Submit\<close> return and asks \<open>Err\<close> at the end.
  \<open>impl_LoadAccount\<close> is \<open>tx.GetClient().LoadAccount\<close>, which returns an account
  record by value and an error. \<open>impl_Random\<close> is \<open>keypair.Random()\<close>: the pair it
  generated, read through \<open>Seed()\<close> and \<open>Address()\<close>, and its error. Every call into
  the package is taken to return.
\<close>

record ('s, 'h) package =
  impl_NewTx :: "string \<Rightarrow> 's"
  impl_Build :: "'s \<Rightarrow> source_account \<Rightarrow> transaction_mutator list \<Rightarrow> 's"
  impl_Sign :: "'s \<Rightarrow> string list \<Rightarrow> 's"
  impl_Submit :: "'s \<Rightarrow> 's"
  impl_Err :: "'s \<Rightarrow> error option"
  impl_LoadAccount :: "'s \<Rightarrow> string \<Rightarrow> 'h \<times> error option"
  impl_newAccountFromHorizon :: "'h \<Rightarrow> Account"
  impl_Random :: "KeyPair \<times> error option"

text \<open>
  Every call the facade makes on a \<open>Tx\<close> or on its client is recorded, in order, next
  to the state of the object.
\<close>

datatype tx_call =
    Call_NewTx string
  | Call_Build source_account "transaction_mutator list"
  | Call_Sign "string list"
  | Call_Submit
  | Call_LoadAccount string

record 's Tx =
  state :: 's
  invoked :: "tx_call list"

definition NewTx :: "('s, 'h) package \<Rightarrow> string \<Rightarrow> 's Tx" where
  "NewTx P networkName =
     \<lparr>state = impl_NewTx P networkName, invoked = [Call_NewTx networkName]\<rparr>"

definition Build ::
  "('s, 'h) package \<Rightarrow> 's Tx \<Rightarrow> source_account \<Rightarrow> transaction_mutator list \<Rightarrow> 's Tx" where
  "Build P tx src muts =
     \<lparr>state = impl_Build P (state tx) src muts,
      invoked = invoked tx @ [Call_Build src muts]\<rparr>"

definition Sign :: "('s, 'h) package \<Rightarrow> 's Tx \<Rightarrow> string list \<Rightarrow> 's Tx" where
  "Sign P tx keys =
     \<lparr>state = impl_Sign P (state tx) keys, invoked = invoked tx @ [Call_Sign keys]\<rparr>"

definition Submit :: "('s, 'h) package \<Rightarrow> 's Tx \<Rightarrow> 's Tx" where
  "Submit P tx =
     \<lparr>state = impl_Submit P (state tx), invoked = invoked tx @ [Call_Submit]\<rparr>"

definition Err :: "('s, 'h) package \<Rightarrow> 's Tx \<Rightarrow> error option" where
  "Err P tx = impl_Err P (state tx)"

definition GetClient_LoadAccount ::
  "('s, 'h) package \<Rightarrow> 's Tx \<Rightarrow> string \<Rightarrow> ('h \<times> error option) \<times> 's Tx" where
  "GetClient_LoadAccount P tx address =
     (impl_LoadAccount P (state tx) address,
      tx\<lparr>invoked := invoked tx @ [Call_LoadAccount address]\<rparr>)"

section \<open>The facade\<close>

text \<open>
  What a facade call leaves behind: the handle it was invoked on (the receiver is a
  pointer, so the call could have written to it) and the calls it made on the pipeline.
  A mutating operation also returns an error and leaves the \<open>Tx\<close> it created;
  \<open>LoadAccount\<close> and \<open>CreateKeyPair\<close> return a pointer (\<open>None\<close> is \<open>nil\<close>) and an
  error.
\<close>

record effects =
  receiver :: MicroStellar
  calls :: "tx_call list"

record 's tx_outcome = effects +
  returned :: "error option"
  final :: "'s"

record account_outcome = effects +
  account :: "Account option"
  account_err :: "error option"

record keypair_outcome = effects +
  keypair :: "KeyPair option"
  keypair_err :: "error option"

text \<open>\<open>return tx.Err()\<close>, together with what the call leaves behind.\<close>

definition finish :: "('s, 'h) package \<Rightarrow> MicroStellar \<Rightarrow> 's Tx \<Rightarrow> 's tx_outcome" where
  "finish P ms tx =
     \<lparr>receiver = ms, calls = invoked tx, returned = Err P tx, final = state tx\<rparr>"

definition CreateKeyPair :: "('s, 'h) package \<Rightarrow> MicroStellar \<Rightarrow> keypair_outcome" where
  "CreateKeyPair P ms =
     (let (pair, err) = impl_Random P in
      if err \<noteq> None
      then \<lparr>receiver = ms, calls = [], keypair = None, keypair_err = err\<rparr>
      else \<lparr>receiver = ms, calls = [],
            keypair = Some \<lparr>Seed = Seed pair, Address = Address pair\<rparr>,
            keypair_err = None\<rparr>)"

definition FundAccount ::
  "('s, 'h) package \<Rightarrow> MicroStellar \<Rightarrow> string \<Rightarrow> string \<Rightarrow> string \<Rightarrow> string list
     \<Rightarrow> 's tx_outcome" where
  "FundAccount P ms sourceSeed address amount signers =
     (let payment = build_CreateAccount
            [build_Destination address, build_NativeAmount amount];
          tx = NewTx P (ms_networkName ms);
          tx = Build P tx (sourceAccount sourceSeed) [payment];
          tx = (if length signers > 0 then Sign P tx signers
                else Sign P tx [sourceSeed]);
          tx = Submit P tx
      in finish P ms tx)"

definition LoadAccount ::
  "('s, 'h) package \<Rightarrow> MicroStellar \<Rightarrow> string \<Rightarrow> account_outcome" where
  "LoadAccount P ms address =
     (if ms_fake ms
      then \<lparr>receiver = ms, calls = [], account = Some newAccount, account_err = None\<rparr>
      else
        (let tx = NewTx P (ms_networkName ms);
             ((horizon_account, err), tx) = GetClient_LoadAccount P tx address
         in if err \<noteq> None
            then \<lparr>receiver = ms, calls = invoked tx, account = None, account_err = err\<rparr>
            else \<lparr>receiver = ms, calls = invoked tx,
                  account = Some (impl_newAccountFromHorizon P horizon_account),
                  account_err = None\<rparr>))"

definition Pay :: "('s, 'h) package \<Rightarrow> MicroStellar \<Rightarrow> Payment \<Rightarrow> 's tx_outcome" where
  "Pay P ms payment =
     (let txMuts = [];
          paymentMuts = [build_Destination (payment_targetAddress payment)];
          paymentMuts =
            (if IsNative (payment_asset payment)
             then paymentMuts @ [build_NativeAmount (payment_amount payment)]
             else paymentMuts @
               [build_CreditAmount (Code (payment_asset payment))
                  (Issuer (payment_asset payment)) (payment_amount payment)]);
          txMuts =
            (case payment_memoType payment of
               MemoText \<Rightarrow> txMuts @ [build_MemoText (payment_memoText payment)]
             | MemoID \<Rightarrow> txMuts @ [build_MemoID (payment_memoID payment)]
             | MemoNone \<Rightarrow> txMuts);
          txMuts = txMuts @ [build_Payment paymentMuts];
          tx = NewTx P (ms_networkName ms);
          tx = Build P tx (sourceAccount (payment_sourceSeed payment)) txMuts;
          tx = (if length (payment_signerSeeds payment) > 0
                then Sign P tx (payment_signerSeeds payment)
                else Sign P tx [payment_sourceSeed payment]);
          tx = Submit P tx
      in finish P ms tx)"

definition PayNative ::
  "('s, 'h) package \<Rightarrow> MicroStellar \<Rightarrow> string \<Rightarrow> string \<Rightarrow> string \<Rightarrow> 's tx_outcome" where
  "PayNative P ms sourceSeed targetAddress amount =
     Pay P ms (NewPayment sourceSeed targetAddress amount)"

definition CreateTrustLine ::
  "('s, 'h) package \<Rightarrow> MicroStellar \<Rightarrow> string \<Rightarrow> Asset \<Rightarrow> string \<Rightarrow> string list
     \<Rightarrow> 's tx_outcome" where
  "CreateTrustLine P ms sourceSeed asset limit signers =
     (let tx = NewTx P (ms_networkName ms);
          tx = (if limit = []
                then Build P tx (sourceAccount sourceSeed)
                       [build_Trust (Code asset) (Issuer asset) []]
                else Build P tx (sourceAccount sourceSeed)
                       [build_Trust (Code asset) (Issuer asset) [build_Limit limit]]);
          tx = (if length signers > 0 then Sign P tx signers
                else Sign P tx [sourceSeed]);
          tx = Submit P tx
      in finish P ms tx)"

definition RemoveTrustLine ::
  "('s, 'h) package \<Rightarrow> MicroStellar \<Rightarrow> string \<Rightarrow> Asset \<Rightarrow> string list \<Rightarrow> 's tx_outcome" where
  "RemoveTrustLine P ms sourceSeed asset signers =
     (let tx = NewTx P (ms_networkName ms);
          tx = Build P tx (sourceAccount sourceSeed)
                 [build_RemoveTrust (Code asset) (Issuer asset)];
          tx = (if length signers > 0 then Sign P tx signers
                else Sign P tx [sourceSeed]);
          tx = Submit P tx
      in finish P ms tx)"

definition SetMasterWeight ::
  "('s, 'h) package \<Rightarrow> MicroStellar \<Rightarrow> string \<Rightarrow> 32 word \<Rightarrow> string list \<Rightarrow> 's tx_outcome" where
  "SetMasterWeight P ms sourceSeed weight signers =
     (let tx = NewTx P (ms_networkName ms);
          tx = Build P tx (sourceAccount sourceSeed) [build_MasterWeight weight];
          tx = (if length signers > 0 then Sign P tx signers
                else Sign P tx [sourceSeed]);
          tx = Submit P tx
      in finish P ms tx)"

definition AddSigner ::
  "('s, 'h) package \<Rightarrow> MicroStellar \<Rightarrow> string \<Rightarrow> string \<Rightarrow> 32 word \<Rightarrow> string list
     \<Rightarrow> 's tx_outcome" where
  "AddSigner P ms sourceSeed signerAddress signerWeight signers =
     (let tx = NewTx P (ms_networkName ms);
          tx = Build P tx (sourceAccount sourceSeed)
                 [build_AddSigner signerAddress signerWeight];
          tx = (if length signers > 0 then Sign P tx signers
                else Sign P tx [sourceSeed]);
          tx = Submit P tx
      in finish P ms tx)"

definition RemoveSigner ::
  "('s, 'h) package \<Rightarrow> MicroStellar \<Rightarrow> string \<Rightarrow> string \<Rightarrow> string list \<Rightarrow> 's tx_outcome" where
  "RemoveSigner P ms sourceSeed signerAddress signers =
     (let tx = NewTx P (ms_networkName ms);
          tx = Build P tx (sourceAccount sourceSeed) [build_RemoveSigner signerAddress];
          tx = (if length signers > 0 then Sign P tx signers
                else Sign P tx [sourceSeed]);
          tx = Submit P tx
      in finish P ms tx)"

definition SetThresholds ::
  "('s, 'h) package \<Rightarrow> MicroStellar \<Rightarrow> string \<Rightarrow> 32 word \<Rightarrow> 32 word \<Rightarrow> 32 word
     \<Rightarrow> string list \<Rightarrow> 's tx_outcome" where
  "SetThresholds P ms sourceSeed low medium high signers =
     (let tx = NewTx P (ms_networkName ms);
          tx = Build P tx (sourceAccount sourceSeed) [build_SetThresholds low medium high];
          tx = (if length signers > 0 then Sign P tx signers
                else Sign P tx [sourceSeed]);
          tx = Submit P tx
      in finish P ms tx)"

section \<open>Reading the record of calls\<close>

text \<open>The arguments of the \<open>Sign\<close> calls, and of the \<open>Build\<close> calls, in the order made.\<close>

fun Sign_calls :: "tx_call list \<Rightarrow> string list list" where
  "Sign_calls [] = []"
| "Sign_calls (Call_Sign keys # cs) = keys # Sign_calls cs"
| "Sign_calls (_ # cs) = Sign_calls cs"

fun Build_calls :: "tx_call list \<Rightarrow> (source_account \<times> transaction_mutator list) list" where
  "Build_calls [] = []"
| "Build_calls (Call_Build src muts # cs) = (src, muts) # Build_calls cs"
| "Build_calls (_ # cs) = Build_calls cs"

text \<open>The mutators handed to \<open>Tx.Build\<close> after the source account, in order.\<close>

definition Built_mutators :: "tx_call list \<Rightarrow> transaction_mutator list" where
  "Built_mutators cs = concat (map snd (Build_calls cs))"

fun is_memo :: "transaction_mutator \<Rightarrow> bool" where
  "is_memo (build_MemoText _) = True"
| "is_memo (build_MemoID _) = True"
| "is_memo _ = False"

fun is_payment_op :: "transaction_mutator \<Rightarrow> bool" where
  "is_payment_op (build_Payment _) = True"
| "is_payment_op _ = False"

text \<open>The argument lists of the payment operations among a list of mutators.\<close>

fun Payment_operations :: "transaction_mutator list \<Rightarrow> payment_mutator list list" where
  "Payment_operations [] = []"
| "Payment_operations (build_Payment pm # ms) = pm # Payment_operations ms"
| "Payment_operations (_ # ms) = Payment_operations ms"

fun NewTx_calls :: "tx_call list \<Rightarrow> string list" where
  "NewTx_calls [] = []"
| "NewTx_calls (Call_NewTx n # cs) = n # NewTx_calls cs"
| "NewTx_calls (_ # cs) = NewTx_calls cs"

fun LoadAccount_calls :: "tx_call list \<Rightarrow> string list" where
  "LoadAccount_calls [] = []"
| "LoadAccount_calls (Call_LoadAccount a # cs) = a # LoadAccount_calls cs"
| "LoadAccount_calls (_ # cs) = LoadAccount_calls cs"

text \<open>
  Replaying a record of calls on the package: the first call must construct the \<open>Tx\<close>,
  every later call acts on the object the earlier ones left. The result is the state of
  that object after the last call.
\<close>

fun apply_call :: "('s, 'h) package \<Rightarrow> 's \<Rightarrow> tx_call \<Rightarrow> 's" where
  "apply_call P s (Call_NewTx n) = impl_NewTx P n"
| "apply_call P s (Call_Build src muts) = impl_Build P s src muts"
| "apply_call P s (Call_Sign keys) = impl_Sign P s keys"
| "apply_call P s Call_Submit = impl_Submit P s"
| "apply_call P s (Call_LoadAccount a) = s"

fun replay :: "('s, 'h) package \<Rightarrow> tx_call list \<Rightarrow> 's option" where
  "replay P (Call_NewTx n # cs) = Some (foldl (apply_call P) (impl_NewTx P n) cs)"
| "replay P _ = None"

section \<open>A test double\<close>

text \<open>
  A package with no network behind it, for evaluating the facade on concrete inputs: the
  state of a \<open>Tx\<close> is the list of keys it was signed with, and \<open>Err\<close> reports a
  transaction that nobody signed. The client knows no account.
\<close>

definition stub :: "(string list, unit) package" where
  "stub =
     \<lparr>impl_NewTx = (\<lambda>n. []),
      impl_Build = (\<lambda>s src muts. s),
      impl_Sign = (\<lambda>s keys. s @ keys),
      impl_Submit = (\<lambda>s. s),
      impl_Err = (\<lambda>s. if s = [] then Some (SignError ''unsigned'') else None),
      impl_LoadAccount = (\<lambda>s a. ((), Some (NotFoundError a))),
      impl_newAccountFromHorizon = (\<lambda>h. newAccount),
      impl_Random = (\<lparr>Seed = ''S'', Address = ''G''\<rparr>, None)\<rparr>"

section \<open>The pipeline of the spec\<close>

text \<open>
  Modelled from the spec: \<open>Tx\<close> (its fields, \<open>NewTx\<close>, \<open>Build\<close>, \<open>Sign\<close>, \<open>Submit\<close>,
  \<open>Err\<close> and the client behind \<open>GetClient\<close>) is defined outside \<open>microstellar.go\<close>.
  The spec's pipeline: states \<open>Fresh\<close>, \<open>Built\<close>, \<open>Signed\<close>, \<open>Submitted\<close>; the first
  failure is kept as the terminal error and every later stage is a no-op; \<open>Sign\<close> or
  \<open>Submit\<close> before \<open>Build\<close> is reported; a pipeline constructed against the sentinel
  network name \<open>fake\<close> bypasses all network I/O, and \<open>Build\<close>, \<open>Sign\<close> and \<open>Submit\<close>
  succeed trivially there. The external collaborators of the spec (the operation
  builder's validation, the key material check, the network transport, the key
  generator) are parameters. \<open>tx_io\<close> lists the requests the pipeline sent to the
  network.
\<close>

datatype stage = Fresh | Built | Signed | Submitted

datatype net_request =
    Resolve_source source_account
  | Submit_envelope "transaction_mutator list" "string list"

record spec_tx =
  tx_networkName :: string
  tx_fake :: bool
  tx_stage :: stage
  tx_source :: "source_account option"
  tx_operations :: "transaction_mutator list"
  tx_signatures :: "string list"
  tx_err :: "error option"
  tx_io :: "net_request list"

record collaborators =
  well_formed :: "transaction_mutator \<Rightarrow> bool"
  resolves :: "source_account \<Rightarrow> bool"
  key_material :: "string \<Rightarrow> bool"
  submit_envelope :: "transaction_mutator list \<Rightarrow> string list \<Rightarrow> error option"
  load_account :: "string \<Rightarrow> Account \<times> error option"
  generate_keypair :: "KeyPair \<times> error option"

definition spec_NewTx :: "string \<Rightarrow> spec_tx" where
  "spec_NewTx networkName =
     \<lparr>tx_networkName = networkName, tx_fake = (networkName = ''fake''),
      tx_stage = Fresh, tx_source = None, tx_operations = [], tx_signatures = [],
      tx_err = None, tx_io = []\<rparr>"

definition spec_Build ::
  "collaborators \<Rightarrow> spec_tx \<Rightarrow> source_account \<Rightarrow> transaction_mutator list \<Rightarrow> spec_tx" where
  "spec_Build E tx src muts =
     (if tx_err tx \<noteq> None then tx
      else if tx_stage tx \<noteq> Fresh
      then tx\<lparr>tx_err := Some (StageError ''already built'')\<rparr>
      else if tx_fake tx
      then tx\<lparr>tx_stage := Built, tx_source := Some src,
              tx_operations := tx_operations tx @ muts\<rparr>
      else if list_all (well_formed E) muts
      then (if resolves E src
            then tx\<lparr>tx_stage := Built, tx_source := Some src,
                    tx_operations := tx_operations tx @ muts,
                    tx_io := tx_io tx @ [Resolve_source src]\<rparr>
            else tx\<lparr>tx_err := Some (BuildError ''source account not resolved''),
                    tx_io := tx_io tx @ [Resolve_source src]\<rparr>)
      else tx\<lparr>tx_err := Some (BuildError ''malformed operation'')\<rparr>)"

definition spec_Sign :: "collaborators \<Rightarrow> spec_tx \<Rightarrow> string list \<Rightarrow> spec_tx" where
  "spec_Sign E tx keys =
     (if tx_err tx \<noteq> None then tx
      else if tx_stage tx = Fresh
      then tx\<lparr>tx_err := Some (StageError ''not built'')\<rparr>
      else if tx_fake tx
      then tx\<lparr>tx_stage := Signed\<rparr>
      else if list_all (key_material E) keys
      then tx\<lparr>tx_stage := Signed, tx_signatures := tx_signatures tx @ keys\<rparr>
      else tx\<lparr>tx_err := Some (SignError ''invalid key material'')\<rparr>)"

definition spec_Submit :: "collaborators \<Rightarrow> spec_tx \<Rightarrow> spec_tx" where
  "spec_Submit E tx =
     (if tx_err tx \<noteq> None then tx
      else if tx_stage tx = Fresh
      then tx\<lparr>tx_err := Some (StageError ''not built'')\<rparr>
      else if tx_fake tx
      then tx\<lparr>tx_stage := Submitted\<rparr>
      else tx\<lparr>tx_stage := Submitted,
              tx_err := submit_envelope E (tx_operations tx) (tx_signatures tx),
              tx_io := tx_io tx @
                [Submit_envelope (tx_operations tx) (tx_signatures tx)]\<rparr>)"

definition spec_package :: "collaborators \<Rightarrow> (spec_tx, Account) package" where
  "spec_package E =
     \<lparr>impl_NewTx = spec_NewTx,
      impl_Build = spec_Build E,
      impl_Sign = spec_Sign E,
      impl_Submit = spec_Submit E,
      impl_Err = tx_err,
      impl_LoadAccount = (\<lambda>tx address. load_account E address),
      impl_newAccountFromHorizon = (\<lambda>a. a),
      impl_Random = generate_keypair E\<rparr>"

section \<open>What it means to return the pipeline's error\<close>

text \<open>
  A mutating operation returns the error of its own \<open>Tx\<close> when it constructed exactly
  one \<open>Tx\<close>, for the network of the handle, the state it leaves is the one the recorded
  calls produce on that object, and the value returned is what \<open>Err\<close> gives on that
  state, unchanged.
\<close>

definition returns_Err_of_its_Tx ::
  "('s, 'h) package \<Rightarrow> MicroStellar \<Rightarrow> 's tx_outcome \<Rightarrow> bool" where
  "returns_Err_of_its_Tx P ms r =
     (NewTx_calls (calls r) = [ms_networkName ms] \<and>
      replay P (calls r) = Some (final r) \<and>
      returned r = impl_Err P (final r))"

section \<open>Unfolding the facade\<close>

lemmas pipeline_defs =
  NewTx_def Build_def Sign_def Submit_def Err_def GetClient_LoadAccount_def finish_def
  Let_def

lemmas facade_defs =
  FundAccount_def Pay_def CreateTrustLine_def RemoveTrustLine_def SetMasterWeight_def
  AddSigner_def RemoveSigner_def SetThresholds_def

section \<open>Signer resolution\<close>

text \<open>
  Claim C1. Every mutating operation of the facade (\<open>FundAccount\<close>, \<open>Pay\<close>,
  \<open>CreateTrustLine\<close>, \<open>RemoveTrustLine\<close>, \<open>SetMasterWeight\<close>, \<open>AddSigner\<close>,
  \<open>RemoveSigner\<close>, \<open>SetThresholds\<close>) calls \<open>Sign\<close> exactly once. When the signer list
  is not empty the call carries that list, in the order given, whatever the primary
  parameter is (\<open>primary\<close> below is arbitrary, so it is never what is signed with);
  when the list is empty the call carries the primary parameter as the only seed. For
  \<open>Pay\<close> the list is \<open>payment.signerSeeds\<close> and the primary parameter is
  \<open>payment.sourceSeed\<close>.
\<close>

theorem signer_resolution:
  "(signers \<noteq> [] \<longrightarrow>
        Sign_calls (calls (FundAccount P ms primary address amount signers)) = [signers] \<and>
        Sign_calls (calls (CreateTrustLine P ms primary asset limit signers)) = [signers] \<and>
        Sign_calls (calls (RemoveTrustLine P ms primary asset signers)) = [signers] \<and>
        Sign_calls (calls (SetMasterWeight P ms primary weight signers)) = [signers] \<and>
        Sign_calls (calls (AddSigner P ms primary signerAddress signerWeight signers)) = [signers] \<and>
        Sign_calls (calls (RemoveSigner P ms primary signerAddress signers)) = [signers] \<and>
        Sign_calls (calls (SetThresholds P ms primary low medium high signers)) = [signers]) \<and>
   (signers = [] \<longrightarrow>
        Sign_calls (calls (FundAccount P ms sourceSeed address amount signers)) = [[sourceSeed]] \<and>
        Sign_calls (calls (CreateTrustLine P ms sourceSeed asset limit signers)) = [[sourceSeed]] \<and>
        Sign_calls (calls (RemoveTrustLine P ms sourceSeed asset signers)) = [[sourceSeed]] \<and>
        Sign_calls (calls (SetMasterWeight P ms sourceSeed weight signers)) = [[sourceSeed]] \<and>
        Sign_calls (calls (AddSigner P ms sourceSeed signerAddress signerWeight signers)) = [[sourceSeed]] \<and>
        Sign_calls (calls (RemoveSigner P ms sourceSeed signerAddress signers)) = [[sourceSeed]] \<and>
        Sign_calls (calls (SetThresholds P ms sourceSeed low medium high signers)) = [[sourceSeed]]) \<and>
   (payment_signerSeeds payment \<noteq> [] \<longrightarrow>
      Sign_calls (calls (Pay P ms (payment\<lparr>payment_sourceSeed := primary\<rparr>)))
          = [payment_signerSeeds payment]) \<and>
   (payment_signerSeeds payment = [] \<longrightarrow>
      Sign_calls (calls (Pay P ms payment)) = [[payment_sourceSeed payment]])"
  by (simp add: facade_defs pipeline_defs)

text \<open>
  The scenario of the spec: \<open>AddSigner(addrA, addrC, 1, seedB)\<close> signs with \<open>seedB\<close>
  only; without signers the source seed signs.
\<close>

theorem signer_resolution_witness:
  "[''SSEEDB''] \<noteq> ([] :: string list) \<and>
   Sign_calls (calls (AddSigner stub (New ''test'') ''GADDRA'' ''GADDRC'' 1 [''SSEEDB'']))
     = [[''SSEEDB'']] \<and>
   Sign_calls (calls (AddSigner stub (New ''test'') ''SSEEDA'' ''GADDRC'' 1 []))
     = [[''SSEEDA'']] \<and>
   payment_signerSeeds ((NewPayment ''SSEEDA'' ''GADDRC'' ''1'')\<lparr>payment_signerSeeds := [''SSEEDB'', ''SSEEDD'']\<rparr>) \<noteq> [] \<and>
   Sign_calls (calls (Pay stub (New ''test'')
       ((NewPayment ''SSEEDA'' ''GADDRC'' ''1'')
          \<lparr>payment_signerSeeds := [''SSEEDB'', ''SSEEDD''], payment_sourceSeed := ''GADDRA''\<rparr>)))
     = [[''SSEEDB'', ''SSEEDD'']] \<and>
   payment_signerSeeds (NewPayment ''SSEEDA'' ''GADDRC'' ''1'') = [] \<and>
   Sign_calls (calls (Pay stub (New ''test'') (NewPayment ''SSEEDA'' ''GADDRC'' ''1'')))
     = [[''SSEEDA'']]"
  using
    signer_resolution [where signers = "[''SSEEDB'']" and P = stub and ms = "New ''test''"
      and primary = "''GADDRA''" and signerAddress = "''GADDRC''" and signerWeight = 1
      and payment = "(NewPayment ''SSEEDA'' ''GADDRC'' ''1'')\<lparr>payment_signerSeeds := [''SSEEDB'', ''SSEEDD'']\<rparr>"]
    signer_resolution [where signers = "[]" and P = stub and ms = "New ''test''"
      and sourceSeed = "''SSEEDA''" and signerAddress = "''GADDRC''" and signerWeight = 1
      and payment = "NewPayment ''SSEEDA'' ''GADDRC'' ''1''"]
  by (simp add: NewPayment_def)

section \<open>The payment operation\<close>

text \<open>
  Claim C2. \<open>Pay\<close> hands exactly one payment operation to \<open>Build\<close>. When
  \<open>payment.asset.IsNative()\<close> holds it carries the destination and a native amount of
  \<open>payment.amount\<close>; otherwise it carries the destination and a credit amount whose code
  and issuer are \<open>payment.asset.Code\<close> and \<open>payment.asset.Issuer\<close>, unchanged, with
  \<open>payment.amount\<close>.
\<close>

theorem payment_amount_kind:
  "(IsNative (payment_asset payment) \<longrightarrow>
      Payment_operations (Built_mutators (calls (Pay P ms payment))) =
        [[build_Destination (payment_targetAddress payment),
          build_NativeAmount (payment_amount payment)]]) \<and>
   (\<not> IsNative (payment_asset payment) \<longrightarrow>
      Payment_operations (Built_mutators (calls (Pay P ms payment))) =
        [[build_Destination (payment_targetAddress payment),
          build_CreditAmount (Code (payment_asset payment)) (Issuer (payment_asset payment))
            (payment_amount payment)]])"
  by (simp add: Pay_def pipeline_defs Built_mutators_def split: MemoType.split)

theorem payment_amount_kind_witness:
  "IsNative (payment_asset (NewPayment ''SSEEDA'' ''GADDRB'' ''1.5'')) \<and>
   Payment_operations (Built_mutators (calls
       (Pay stub (New ''test'') (NewPayment ''SSEEDA'' ''GADDRB'' ''1.5'')))) =
     [[build_Destination ''GADDRB'', build_NativeAmount ''1.5'']] \<and>
   \<not> IsNative (payment_asset ((NewPayment ''SSEEDA'' ''GADDRB'' ''1.5'')
       \<lparr>payment_asset := \<lparr>Code = ''USD'', Issuer = ''GISSUER''\<rparr>\<rparr>)) \<and>
   Payment_operations (Built_mutators (calls
       (Pay stub (New ''test'') ((NewPayment ''SSEEDA'' ''GADDRB'' ''1.5'')
          \<lparr>payment_asset := \<lparr>Code = ''USD'', Issuer = ''GISSUER''\<rparr>\<rparr>)))) =
     [[build_Destination ''GADDRB'', build_CreditAmount ''USD'' ''GISSUER'' ''1.5'']]"
  using
    payment_amount_kind [where P = stub and ms = "New ''test''"
      and payment = "NewPayment ''SSEEDA'' ''GADDRB'' ''1.5''"]
    payment_amount_kind [where P = stub and ms = "New ''test''"
      and payment = "(NewPayment ''SSEEDA'' ''GADDRB'' ''1.5'')
          \<lparr>payment_asset := \<lparr>Code = ''USD'', Issuer = ''GISSUER''\<rparr>\<rparr>"]
  by (simp add: NewPayment_def NativeAsset_def IsNative_def)

text \<open>
  Claim C3. \<open>Pay\<close> calls \<open>Build\<close> once, with one payment operation. When the memo
  type is \<open>MemoText\<close> (\<open>MemoID\<close>) the mutators contain exactly one memo, the text (id)
  memo of the payment, and it is all that stands before the payment operation. When the
  memo type is neither, the mutators contain no memo.
\<close>

theorem memo_before_payment:
  "(payment_memoType payment = MemoText \<longrightarrow>
      filter is_memo (Built_mutators (calls (Pay P ms payment))) =
        [build_MemoText (payment_memoText payment)] \<and>
      takeWhile (\<lambda>m. \<not> is_payment_op m) (Built_mutators (calls (Pay P ms payment))) =
        [build_MemoText (payment_memoText payment)]) \<and>
   (payment_memoType payment = MemoID \<longrightarrow>
      filter is_memo (Built_mutators (calls (Pay P ms payment))) =
        [build_MemoID (payment_memoID payment)] \<and>
      takeWhile (\<lambda>m. \<not> is_payment_op m) (Built_mutators (calls (Pay P ms payment))) =
        [build_MemoID (payment_memoID payment)]) \<and>
   (payment_memoType payment \<noteq> MemoText \<and> payment_memoType payment \<noteq> MemoID \<longrightarrow>
      filter is_memo (Built_mutators (calls (Pay P ms payment))) = []) \<and>
   length (Build_calls (calls (Pay P ms payment))) = 1 \<and>
   length (filter is_payment_op (Built_mutators (calls (Pay P ms payment)))) = 1"
  by (cases "payment_memoType payment")
     (simp_all add: Pay_def pipeline_defs Built_mutators_def)

theorem memo_before_payment_witness:
  "payment_memoType ((NewPayment ''SSEEDA'' ''GADDRB'' ''1'')
       \<lparr>payment_memoType := MemoText, payment_memoText := ''rent''\<rparr>) = MemoText \<and>
   takeWhile (\<lambda>m. \<not> is_payment_op m) (Built_mutators (calls
       (Pay stub (New ''test'') ((NewPayment ''SSEEDA'' ''GADDRB'' ''1'')
          \<lparr>payment_memoType := MemoText, payment_memoText := ''rent''\<rparr>)))) =
     [build_MemoText ''rent''] \<and>
   payment_memoType ((NewPayment ''SSEEDA'' ''GADDRB'' ''1'')
       \<lparr>payment_memoType := MemoID, payment_memoID := 42\<rparr>) = MemoID \<and>
   takeWhile (\<lambda>m. \<not> is_payment_op m) (Built_mutators (calls
       (Pay stub (New ''test'') ((NewPayment ''SSEEDA'' ''GADDRB'' ''1'')
          \<lparr>payment_memoType := MemoID, payment_memoID := 42\<rparr>)))) =
     [build_MemoID 42] \<and>
   payment_memoType (NewPayment ''SSEEDA'' ''GADDRB'' ''1'') \<noteq> MemoText \<and>
   payment_memoType (NewPayment ''SSEEDA'' ''GADDRB'' ''1'') \<noteq> MemoID \<and>
   filter is_memo (Built_mutators (calls
       (Pay stub (New ''test'') (NewPayment ''SSEEDA'' ''GADDRB'' ''1'')))) = []"
  using
    memo_before_payment [where P = stub and ms = "New ''test''"
      and payment = "(NewPayment ''SSEEDA'' ''GADDRB'' ''1'')
          \<lparr>payment_memoType := MemoText, payment_memoText := ''rent''\<rparr>"]
    memo_before_payment [where P = stub and ms = "New ''test''"
      and payment = "(NewPayment ''SSEEDA'' ''GADDRB'' ''1'')
          \<lparr>payment_memoType := MemoID, payment_memoID := 42\<rparr>"]
    memo_before_payment [where P = stub and ms = "New ''test''"
      and payment = "NewPayment ''SSEEDA'' ''GADDRB'' ''1''"]
  by (simp add: NewPayment_def)

section \<open>Errors\<close>

text \<open>
  Claim C4. Every mutating operation of the facade returns what \<open>Err\<close> gives on the
  \<open>Tx\<close> it created, after the calls it made on it, with no translation: the two values
  are equal, so the operation returns \<open>nil\<close> exactly when the pipeline reports no
  error.
\<close>

theorem facade_returns_pipeline_error:
  "returns_Err_of_its_Tx P ms (FundAccount P ms sourceSeed address amount signers) \<and>
   returns_Err_of_its_Tx P ms (Pay P ms payment) \<and>
   returns_Err_of_its_Tx P ms (CreateTrustLine P ms sourceSeed asset limit signers) \<and>
   returns_Err_of_its_Tx P ms (RemoveTrustLine P ms sourceSeed asset signers) \<and>
   returns_Err_of_its_Tx P ms (SetMasterWeight P ms sourceSeed weight signers) \<and>
   returns_Err_of_its_Tx P ms (AddSigner P ms sourceSeed signerAddress signerWeight signers) \<and>
   returns_Err_of_its_Tx P ms (RemoveSigner P ms sourceSeed signerAddress signers) \<and>
   returns_Err_of_its_Tx P ms (SetThresholds P ms sourceSeed low medium high signers)"
  by (simp add: returns_Err_of_its_Tx_def facade_defs pipeline_defs split: MemoType.split)

section \<open>Loading accounts\<close>

text \<open>
  Claim C5. On a handle in fake mode \<open>LoadAccount\<close> returns the synthesized account,
  whose fields all have their zero value, and a \<open>nil\<close> error, for every address string,
  well-formed or not; it constructs no \<open>Tx\<close> and makes no call on the client, so nothing
  reaches the network.
\<close>

theorem load_account_fake:
  "ms_fake ms \<Longrightarrow>
     account (LoadAccount P ms address) = Some newAccount \<and>
     account_err (LoadAccount P ms address) = None \<and>
     calls (LoadAccount P ms address) = [] \<and>
     newAccount = \<lparr>account_address = [], account_sequence = 0, account_balances = [],
       account_signers = [], account_thresholds = (0, 0, 0)\<rparr>"
  by (simp add: LoadAccount_def newAccount_def)

theorem load_account_fake_witness:
  "ms_fake (New ''fake'') \<and>
   account (LoadAccount stub (New ''fake'') ''not an address'') = Some newAccount \<and>
   account_err (LoadAccount stub (New ''fake'') ''not an address'') = None \<and>
   calls (LoadAccount stub (New ''fake'') ''not an address'') = []"
proof -
  have h: "ms_fake (New ''fake'')" by (simp add: New_def)
  show ?thesis
    using h load_account_fake [OF h, of stub "''not an address''"] by simp
qed

text \<open>
  Claim C9. \<open>LoadAccount\<close> returns either an account and a \<open>nil\<close> error, or a \<open>nil\<close>
  account and an error; never both, never neither. The calls into the package are taken
  to return; \<open>newAccount\<close> and \<open>newAccountFromHorizon\<close> construct an account, so the
  pointer they return is not \<open>nil\<close>.
\<close>

theorem load_account_exactly_one:
  "((account (LoadAccount P ms address) \<noteq> None \<and> account_err (LoadAccount P ms address) = None) \<or>
    (account (LoadAccount P ms address) = None \<and> account_err (LoadAccount P ms address) \<noteq> None)) \<and>
   \<not> (account (LoadAccount P ms address) \<noteq> None \<and> account_err (LoadAccount P ms address) \<noteq> None) \<and>
   \<not> (account (LoadAccount P ms address) = None \<and> account_err (LoadAccount P ms address) = None)"
  by (auto simp add: LoadAccount_def pipeline_defs split: prod.split)

section \<open>Trust lines\<close>

text \<open>
  Claim C6. With an empty limit string \<open>CreateTrustLine\<close> builds a trust operation for
  the asset's code and issuer with no limit mutator; with a non-empty limit string it
  builds the trust operation carrying that limit; the two differ.
\<close>

theorem trust_line_limit:
  "(limit = [] \<longrightarrow>
      Built_mutators (calls (CreateTrustLine P ms sourceSeed asset limit signers)) =
        [build_Trust (Code asset) (Issuer asset) []]) \<and>
   (limit \<noteq> [] \<longrightarrow>
      Built_mutators (calls (CreateTrustLine P ms sourceSeed asset limit signers)) =
        [build_Trust (Code asset) (Issuer asset) [build_Limit limit]] \<and>
      Built_mutators (calls (CreateTrustLine P ms sourceSeed asset limit signers)) \<noteq>
        Built_mutators (calls (CreateTrustLine P ms sourceSeed asset [] signers)))"
  by (simp add: CreateTrustLine_def pipeline_defs Built_mutators_def)

theorem trust_line_limit_witness:
  "Built_mutators (calls (CreateTrustLine stub (New ''test'') ''SSEEDA''
       \<lparr>Code = ''USD'', Issuer = ''GISSUER''\<rparr> [] [])) =
     [build_Trust ''USD'' ''GISSUER'' []] \<and>
   ''1000'' \<noteq> [] \<and>
   Built_mutators (calls (CreateTrustLine stub (New ''test'') ''SSEEDA''
       \<lparr>Code = ''USD'', Issuer = ''GISSUER''\<rparr> ''1000'' [])) =
     [build_Trust ''USD'' ''GISSUER'' [build_Limit ''1000'']] \<and>
   Built_mutators (calls (CreateTrustLine stub (New ''test'') ''SSEEDA''
       \<lparr>Code = ''USD'', Issuer = ''GISSUER''\<rparr> ''1000'' [])) \<noteq>
   Built_mutators (calls (CreateTrustLine stub (New ''test'') ''SSEEDA''
       \<lparr>Code = ''USD'', Issuer = ''GISSUER''\<rparr> [] []))"
  using
    trust_line_limit [where P = stub and ms = "New ''test''" and sourceSeed = "''SSEEDA''"
      and asset = "\<lparr>Code = ''USD'', Issuer = ''GISSUER''\<rparr>" and limit = "[]"
      and signers = "[]"]
    trust_line_limit [where P = stub and ms = "New ''test''" and sourceSeed = "''SSEEDA''"
      and asset = "\<lparr>Code = ''USD'', Issuer = ''GISSUER''\<rparr>" and limit = "''1000''"
      and signers = "[]"]
  by simp

section \<open>Fake mode\<close>

text \<open>
  Claim C7. With the pipeline of the spec, \<open>PayNative\<close> on the handle \<open>New("fake")\<close>
  returns \<open>nil\<close>, its \<open>Tx\<close> sent nothing to the network, and no account was loaded
  through the client. In fake mode the stages succeed without looking at their inputs,
  so this holds for every source seed, target address and amount, the valid ones among
  them, and whatever the collaborators \<open>E\<close> would have answered.
\<close>

theorem pay_native_fake:
  "returned (PayNative (spec_package E) (New ''fake'') sourceSeed targetAddress amount) = None \<and>
   tx_io (final (PayNative (spec_package E) (New ''fake'') sourceSeed targetAddress amount)) = [] \<and>
   LoadAccount_calls
     (calls (PayNative (spec_package E) (New ''fake'') sourceSeed targetAddress amount)) = []"
  by (simp add: PayNative_def Pay_def NewPayment_def pipeline_defs New_def spec_package_def
      spec_NewTx_def spec_Build_def spec_Sign_def spec_Submit_def)

section \<open>The handle\<close>

text \<open>
  Claim C8. The handle \<open>New(networkName)\<close> has its \<open>fake\<close> flag set exactly when
  \<open>networkName\<close> is the string \<open>fake\<close>, and it keeps the name it was given. Every
  operation of the facade leaves the handle it was called on as it was: neither
  \<open>networkName\<close> nor \<open>fake\<close> changes.
\<close>

theorem handle_immutable:
  "ms_fake (New networkName) = (networkName = ''fake'') \<and>
   ms_networkName (New networkName) = networkName \<and>
   receiver (CreateKeyPair P ms) = ms \<and>
   receiver (FundAccount P ms sourceSeed address amount signers) = ms \<and>
   receiver (LoadAccount P ms address) = ms \<and>
   receiver (PayNative P ms sourceSeed targetAddress amount) = ms \<and>
   receiver (Pay P ms payment) = ms \<and>
   receiver (CreateTrustLine P ms sourceSeed asset limit signers) = ms \<and>
   receiver (RemoveTrustLine P ms sourceSeed asset signers) = ms \<and>
   receiver (SetMasterWeight P ms sourceSeed weight signers) = ms \<and>
   receiver (AddSigner P ms sourceSeed signerAddress signerWeight signers) = ms \<and>
   receiver (RemoveSigner P ms sourceSeed signerAddress signers) = ms \<and>
   receiver (SetThresholds P ms sourceSeed low medium high signers) = ms"
  by (simp add: New_def CreateKeyPair_def LoadAccount_def PayNative_def facade_defs
      pipeline_defs split: prod.split)

section \<open>Native payments\<close>

text \<open>
  Claim C10. \<open>PayNative(sourceSeed, targetAddress, amount)\<close> is \<open>Pay\<close> applied to
  \<open>NewPayment(sourceSeed, targetAddress, amount)\<close>: same returned error, same calls,
  same final state. That payment has the native asset, no memo and no signer list, so
  the calls are: construct the \<open>Tx\<close>, build one native payment from the source, sign
  with the source seed, submit.
\<close>

theorem pay_native_is_pay:
  "PayNative P ms sourceSeed targetAddress amount =
     Pay P ms (NewPayment sourceSeed targetAddress amount) \<and>
   IsNative (payment_asset (NewPayment sourceSeed targetAddress amount)) \<and>
   payment_memoType (NewPayment sourceSeed targetAddress amount) = MemoNone \<and>
   payment_signerSeeds (NewPayment sourceSeed targetAddress amount) = [] \<and>
   calls (PayNative P ms sourceSeed targetAddress amount) =
     [Call_NewTx (ms_networkName ms),
      Call_Build (sourceAccount sourceSeed)
        [build_Payment [build_Destination targetAddress, build_NativeAmount amount]],
      Call_Sign [sourceSeed], Call_Submit]"
  by (simp add: PayNative_def Pay_def NewPayment_def NativeAsset_def IsNative_def pipeline_defs)

end
